theory Spec2Isabelle
  imports Main "HOL-Library.Sublist"
begin

section \<open>JavaScript values reaching the viewer\<close>

text \<open>
  The component \<^verbatim>\<open>InteractiveOutput({ url, htmlContent })\<close> of
  \<^verbatim>\<open>frontend/src/components/interactive/InteractiveOutput.tsx\<close> receives
  \<^verbatim>\<open>event.data\<close> of any JavaScript type and reads it without a type test, so the
  coercions of the language decide what the handler does. Numbers are the doubles
  \<open>NaN\<close>, \<open>-Infinity\<close>, \<open>+Infinity\<close> and the finite ones; the finite numbers
  are modelled by the integers (\<^verbatim>\<open>document.body.scrollHeight\<close>, the height the
  injected script reports, is integral, and \<open>-0\<close> and \<open>0\<close>, both falsy, are not
  told apart). Fractional heights are outside the model, and so are arrays and the
  other exotic objects.
\<close>

datatype jsnum = NaN | NegInf | Fin int | PosInf

datatype jsval =
    JUndefined
  | JNull
  | JBool bool
  | JNum jsnum
  | JBigInt int
  | JStr string
  | JObj "(string \<times> jsval) list"

text \<open>
  \<open>JObj\<close> is a plain object as the structured clone of \<^verbatim>\<open>postMessage\<close>
  delivers it: own data properties only, the first binding of a key being the one read.
\<close>

text \<open>\<^verbatim>\<open>data?.key\<close> for the keys \<^verbatim>\<open>type\<close> and \<^verbatim>\<open>height\<close>, which no
  primitive wrapper defines: \<^verbatim>\<open>undefined\<close> on \<^verbatim>\<open>null\<close>, \<^verbatim>\<open>undefined\<close> and
  on every primitive.\<close>

fun opt_chain :: "jsval \<Rightarrow> string \<Rightarrow> jsval" where
  "opt_chain (JObj kvs) key =
     (case map_of kvs key of Some v \<Rightarrow> v | None \<Rightarrow> JUndefined)"
| "opt_chain _ key = JUndefined"

text \<open>ToBoolean.\<close>

fun truthy :: "jsval \<Rightarrow> bool" where
  "truthy JUndefined = False"
| "truthy JNull = False"
| "truthy (JBool b) = b"
| "truthy (JNum n) = (n \<noteq> NaN \<and> n \<noteq> Fin 0)"
| "truthy (JBigInt n) = (n \<noteq> 0)"
| "truthy (JStr s) = (s \<noteq> [])"
| "truthy (JObj kvs) = True"

text \<open>\<^verbatim>\<open>v === "resize"\<close>: strict equality with a string holds for that string only.\<close>

fun strict_eq_str :: "jsval \<Rightarrow> string \<Rightarrow> bool" where
  "strict_eq_str (JStr s) t = (s = t)"
| "strict_eq_str _ t = False"

text \<open>Number addition.\<close>

fun num_add :: "jsnum \<Rightarrow> jsnum \<Rightarrow> jsnum" where
  "num_add NaN _ = NaN"
| "num_add _ NaN = NaN"
| "num_add (Fin a) (Fin b) = Fin (a + b)"
| "num_add PosInf NegInf = NaN"
| "num_add NegInf PosInf = NaN"
| "num_add PosInf _ = PosInf"
| "num_add _ PosInf = PosInf"
| "num_add NegInf _ = NegInf"
| "num_add _ NegInf = NegInf"

text \<open>
  \<^verbatim>\<open>v + 40\<close>, with \<open>None\<close> for the TypeError that the operator raises. A string
  operand makes \<open>+\<close> a concatenation with \<^verbatim>\<open>"40"\<close>. A plain object is first turned
  into a primitive by its inherited \<^verbatim>\<open>toString\<close>, which gives \<^verbatim>\<open>"[object Object]"\<close>;
  an own property \<^verbatim>\<open>toString\<close> hides the inherited method and, being data, cannot be
  called, so the conversion raises. A BigInt cannot be added to a number. Every other
  operand is turned into a number.
\<close>

fun add_40 :: "jsval \<Rightarrow> jsval option" where
  "add_40 JUndefined = Some (JNum NaN)"
| "add_40 JNull = Some (JNum (Fin 40))"
| "add_40 (JBool b) = Some (JNum (Fin ((if b then 1 else 0) + 40)))"
| "add_40 (JNum n) = Some (JNum (num_add n (Fin 40)))"
| "add_40 (JBigInt n) = None"
| "add_40 (JStr s) = Some (JStr (s @ ''40''))"
| "add_40 (JObj kvs) =
     (if map_of kvs ''toString'' = None then Some (JStr (''[object Object]'' @ ''40'')) else None)"

text \<open>
  ToNumber, with \<open>None\<close> for the TypeError it raises on a BigInt and on an object that
  cannot be turned into a primitive. The numeric value of a string (StringToNumber of
  the language) is not part of the repository and is the parameter \<open>str_num\<close>.
\<close>

fun ToNumber :: "(string \<Rightarrow> jsnum) \<Rightarrow> jsval \<Rightarrow> jsnum option" where
  "ToNumber str_num JUndefined = Some NaN"
| "ToNumber str_num JNull = Some (Fin 0)"
| "ToNumber str_num (JBool b) = Some (Fin (if b then 1 else 0))"
| "ToNumber str_num (JNum n) = Some n"
| "ToNumber str_num (JBigInt n) = None"
| "ToNumber str_num (JStr s) = Some (str_num s)"
| "ToNumber str_num (JObj kvs) = (if map_of kvs ''toString'' = None then Some NaN else None)"

fun num_less :: "jsnum \<Rightarrow> jsnum \<Rightarrow> bool" where
  "num_less NaN _ = False"
| "num_less _ NaN = False"
| "num_less (Fin a) (Fin b) = (a < b)"
| "num_less NegInf NegInf = False"
| "num_less NegInf _ = True"
| "num_less _ NegInf = False"
| "num_less PosInf _ = False"
| "num_less _ PosInf = True"

text \<open>\<^verbatim>\<open>Math.max\<close> and \<^verbatim>\<open>Math.min\<close> of two numbers: \<open>NaN\<close> if either is.\<close>

definition Math_max :: "jsnum \<Rightarrow> jsnum \<Rightarrow> jsnum" where
  "Math_max a b = (if a = NaN \<or> b = NaN then NaN else if num_less a b then b else a)"

definition Math_min :: "jsnum \<Rightarrow> jsnum \<Rightarrow> jsnum" where
  "Math_min a b = (if a = NaN \<or> b = NaN then NaN else if num_less b a then b else a)"

section \<open>The viewer\<close>

text \<open>The two attributes of the \<^verbatim>\<open>iframe\<close> element that the component sets.\<close>

record iframe =
  src :: "string option"
  srcdoc :: "string option"

text \<open>
  A mounted component: its two props (\<open>None\<close> is \<^verbatim>\<open>undefined\<close>), its three
  \<^verbatim>\<open>useState\<close> cells and \<^verbatim>\<open>iframeRef.current\<close> (\<open>None\<close> is \<^verbatim>\<open>null\<close>).
\<close>

record viewer =
  url :: "string option"
  htmlContent :: "string option"
  isExpanded :: bool
  isLoaded :: bool
  iframeHeight :: jsnum
  iframeRef :: "iframe option"

text \<open>
  An optional string prop used as a condition: \<^verbatim>\<open>undefined\<close> and the empty string
  are falsy; \<open>truthy_str\<close> returns the string when the condition holds.
\<close>

fun truthy_str :: "string option \<Rightarrow> string option" where
  "truthy_str None = None"
| "truthy_str (Some s) = (if s = [] then None else Some s)"

subsection \<open>Sizing channel\<close>

text \<open>
  \<^verbatim>\<open>
  const handleMessage = (event: MessageEvent) => {
      if (event.data?.type === "resize" && event.data?.height) {
          setIframeHeight(Math.min(Math.max(event.data.height + 40, 300), 800));
      }
  };
  \<close>
\<close>

text \<open>
  When \<^verbatim>\<open>event.data.height + 40\<close> or \<^verbatim>\<open>Math.max\<close> raises, the handler ends there,
  before \<^verbatim>\<open>setIframeHeight\<close> is called: the state stays as it was.
\<close>

definition handleMessage :: "(string \<Rightarrow> jsnum) \<Rightarrow> viewer \<Rightarrow> jsval \<Rightarrow> viewer" where
  "handleMessage str_num v data =
     (if strict_eq_str (opt_chain data ''type'') ''resize'' \<and> truthy (opt_chain data ''height'')
      then (case add_40 (opt_chain data ''height'') of
              None \<Rightarrow> v
            | Some added \<Rightarrow>
                (case ToNumber str_num added of
                   None \<Rightarrow> v
                 | Some n \<Rightarrow> v\<lparr>iframeHeight := Math_min (Math_max n (Fin 300)) (Fin 800)\<rparr>))
      else v)"

subsection \<open>Content source resolver\<close>

text \<open>
  \<^verbatim>\<open>s.replace(pat, rep)\<close> with a string pattern: the first occurrence of \<open>pat\<close>, searched
  from the left, is replaced; a string without occurrence is returned as it is. The
  replacement is inserted literally when it holds no \<^verbatim>\<open>$\<close>, which is the case of
  the one replacement used here (lemma \<open>injection_no_dollar\<close>).
\<close>

fun String_replace :: "string \<Rightarrow> string \<Rightarrow> string \<Rightarrow> string" where
  "String_replace [] pat rep = (if pat = [] then rep else [])"
| "String_replace (c # cs) pat rep =
     (if prefix pat (c # cs) then rep @ drop (length pat) (c # cs)
      else c # String_replace cs pat rep)"

text \<open>The \<^verbatim>\<open><script>\<close> element of the template literal, up to its closing tag.\<close>

definition script_block :: string where
  "script_block =
     ''<script>\<newline>'' @
     ''                new ResizeObserver(() => {\<newline>'' @
     ''                    parent.postMessage({ type: 'resize', height: document.body.scrollHeight }, '*');\<newline>'' @
     ''                }).observe(document.body);\<newline>'' @
     ''                setTimeout(() => {\<newline>'' @
     ''                    parent.postMessage({ type: 'resize', height: document.body.scrollHeight }, '*');\<newline>'' @
     ''                }, 1000);\<newline>'' @
     ''              </script>''"

text \<open>The whole template literal: the script element followed by \<^verbatim>\<open></body>\<close>.\<close>

definition injection :: string where
  "injection = script_block @ ''</body>''"

text \<open>
  \<^verbatim>\<open>
  const enhancedHtml = htmlContent
      ? htmlContent.replace("</body>", `<script>...</script></body>`)
      : undefined;
  \<close>
\<close>

definition enhancedHtml :: "string option \<Rightarrow> string option" where
  "enhancedHtml html =
     (case truthy_str html of
        Some h \<Rightarrow> Some (String_replace h ''</body>'' injection)
      | None \<Rightarrow> None)"

subsection \<open>Rendering and mounting\<close>

text \<open>
  The attributes the JSX gives the \<^verbatim>\<open>iframe\<close>:
  \<^verbatim>\<open>srcDoc={enhancedHtml}  src={!htmlContent ? url : undefined}\<close>. The mounted
  element has no \<^verbatim>\<open>src\<close> attribute when the value is \<^verbatim>\<open>undefined\<close> or the empty
  string.
\<close>

definition render_iframe :: "string option \<Rightarrow> string option \<Rightarrow> iframe" where
  "render_iframe u html =
     \<lparr>src = (case truthy_str html of None \<Rightarrow> truthy_str u | Some h \<Rightarrow> None),
      srcdoc = enhancedHtml html\<rparr>"

text \<open>
  The component after its first render: \<^verbatim>\<open>useState(false)\<close>, \<^verbatim>\<open>useState(false)\<close>,
  \<^verbatim>\<open>useState(450)\<close>, and the ref bound to the element just created.
\<close>

definition InteractiveOutput :: "string option \<Rightarrow> string option \<Rightarrow> viewer" where
  "InteractiveOutput u html =
     \<lparr>url = u, htmlContent = html, isExpanded = False, isLoaded = False,
      iframeHeight = Fin 450, iframeRef = Some (render_iframe u html)\<rparr>"

text \<open>\<^verbatim>\<open>onLoad={() => setIsLoaded(true)}\<close>\<close>

definition onLoad :: "viewer \<Rightarrow> viewer" where
  "onLoad v = v\<lparr>isLoaded := True\<rparr>"

text \<open>\<^verbatim>\<open>onClick={() => setIsExpanded(!isExpanded)}\<close>\<close>

definition toggleExpanded :: "viewer \<Rightarrow> viewer" where
  "toggleExpanded v = v\<lparr>isExpanded := \<not> isExpanded v\<rparr>"

text \<open>
  \<^verbatim>\<open>height: isExpanded ? "calc(100vh - 80px)" : `${iframeHeight}px`\<close>: either the fixed
  expression over the viewport or the number of pixels of the state.
\<close>

datatype css_height = Expression string | Px jsnum

definition iframe_style_height :: "viewer \<Rightarrow> css_height" where
  "iframe_style_height v =
     (if isExpanded v then Expression ''calc(100vh - 80px)'' else Px (iframeHeight v))"

text \<open>
  \<^verbatim>\<open>
  const handleRefresh = () => {
      if (iframeRef.current) {
          if (htmlContent) {
              iframeRef.current.srcdoc = htmlContent;
          } else if (url) {
              iframeRef.current.src = url;
          }
      }
  };
  \<close>
\<close>

definition handleRefresh :: "viewer \<Rightarrow> viewer" where
  "handleRefresh v =
     (case iframeRef v of
        None \<Rightarrow> v
      | Some el \<Rightarrow>
          (case truthy_str (htmlContent v) of
             Some h \<Rightarrow> v\<lparr>iframeRef := Some (el\<lparr>srcdoc := Some h\<rparr>)\<rparr>
           | None \<Rightarrow>
               (case truthy_str (url v) of
                  Some u \<Rightarrow> v\<lparr>iframeRef := Some (el\<lparr>src := Some u\<rparr>)\<rparr>
                | None \<Rightarrow> v)))"

text \<open>
  Modelled from the HTML standard: the document an \<^verbatim>\<open>iframe\<close> loads when its
  attributes are processed, at creation and again whenever \<^verbatim>\<open>src\<close> or
  \<^verbatim>\<open>srcdoc\<close> is assigned. A \<^verbatim>\<open>srcdoc\<close> attribute wins over \<^verbatim>\<open>src\<close>.
\<close>

datatype document = AboutBlank | SrcdocDocument string | UrlDocument string

definition iframe_document :: "iframe \<Rightarrow> document" where
  "iframe_document el =
     (case srcdoc el of
        Some d \<Rightarrow> SrcdocDocument d
      | None \<Rightarrow> (case src el of Some u \<Rightarrow> UrlDocument u | None \<Rightarrow> AboutBlank))"

text \<open>What the embedded context of a viewer shows (nothing before the element exists).\<close>

definition loaded_document :: "viewer \<Rightarrow> document option" where
  "loaded_document v = map_option iframe_document (iframeRef v)"

subsection \<open>Opening in a new tab\<close>

text \<open>
  The part of the browser that \<^verbatim>\<open>openInNewTab\<close> acts on: the blob URL store
  (\<^verbatim>\<open>URL.createObjectURL\<close> adds an entry and returns a fresh URL for it, here the
  entry's index) and the calls of \<^verbatim>\<open>window.open\<close> made so far.
\<close>

record blob =
  blobParts :: "string list"
  blobType :: string

datatype address = Address string | ObjectURL nat

record browser =
  object_urls :: "blob list"
  opened :: "(address \<times> string) list"

definition createObjectURL :: "blob \<Rightarrow> browser \<Rightarrow> address \<times> browser" where
  "createObjectURL b w = (ObjectURL (length (object_urls w)), w\<lparr>object_urls := object_urls w @ [b]\<rparr>)"

definition window_open :: "address \<Rightarrow> string \<Rightarrow> browser \<Rightarrow> browser" where
  "window_open a target w = w\<lparr>opened := opened w @ [(a, target)]\<rparr>"

text \<open>
  \<^verbatim>\<open>
  const openInNewTab = () => {
      if (htmlContent) {
          const blob = new Blob([htmlContent], { type: "text/html" });
          const blobUrl = URL.createObjectURL(blob);
          window.open(blobUrl, "_blank");
      } else if (url) {
          window.open(url, "_blank");
      }
  };
  \<close>
  The handler calls no state setter; it is given the viewer and returns it with the
  browser it has acted on.
\<close>

definition openInNewTab :: "viewer \<Rightarrow> browser \<Rightarrow> viewer \<times> browser" where
  "openInNewTab v w =
     (case truthy_str (htmlContent v) of
        Some h \<Rightarrow>
          (let b = \<lparr>blobParts = [h], blobType = ''text/html''\<rparr>;
               (blobUrl, w') = createObjectURL b w
           in (v, window_open blobUrl ''_blank'' w'))
      | None \<Rightarrow>
          (case truthy_str (url v) of
             Some u \<Rightarrow> (v, window_open (Address u) ''_blank'' w)
           | None \<Rightarrow> (v, w)))"

subsection \<open>The injected script\<close>














text \<open>
  What a script reads and writes in the embedded document:
  \<^verbatim>\<open>document.body.scrollHeight\<close> as the layout has it at the moment, and the calls of
  \<^verbatim>\<open>parent.postMessage(message, targetOrigin)\<close> made so far.
\<close>

record embedded =
  body_scrollHeight :: int
  posted :: "(jsval \<times> string) list"

type_synonym callback = "embedded \<Rightarrow> embedded"

text \<open>
  Modelled from the web platform: the callbacks a document has registered, as
  \<^verbatim>\<open>new ResizeObserver(cb).observe(t)\<close> and \<^verbatim>\<open>setTimeout(cb, ms)\<close> record them.
\<close>

datatype target = DocumentBody | Element nat

record scheduler =
  resize_observers :: "(target \<times> callback) list"
  timeouts :: "(nat \<times> callback) list"

definition observe :: "callback \<Rightarrow> target \<Rightarrow> scheduler \<Rightarrow> scheduler" where
  "observe cb t s = s\<lparr>resize_observers := resize_observers s @ [(t, cb)]\<rparr>"

definition setTimeout :: "callback \<Rightarrow> nat \<Rightarrow> scheduler \<Rightarrow> scheduler" where
  "setTimeout cb ms s = s\<lparr>timeouts := timeouts s @ [(ms, cb)]\<rparr>"








section \<open>Notions of the specification\<close>

text \<open>\<open>clamp(x, lo, hi)\<close> as the specification writes it, on numbers.\<close>

definition clamp :: "jsnum \<Rightarrow> jsnum \<Rightarrow> jsnum \<Rightarrow> jsnum" where
  "clamp x lo hi = (if num_less x lo then lo else if num_less hi x then hi else x)"

text \<open>A payload of the shape \<^verbatim>\<open>{type: "resize", height: number}\<close>.\<close>

fun is_number :: "jsval \<Rightarrow> bool" where
  "is_number (JNum n) = True"
| "is_number _ = False"

fun size_report_shape :: "jsval \<Rightarrow> bool" where
  "size_report_shape (JObj kvs) =
     (map_of kvs ''type'' = Some (JStr ''resize'') \<and>
      (case map_of kvs ''height'' of Some h \<Rightarrow> is_number h | None \<Rightarrow> False))"
| "size_report_shape _ = False"

text \<open>The number of positions of \<open>s\<close> at which \<open>pat\<close> occurs.\<close>

fun occurrences :: "string \<Rightarrow> string \<Rightarrow> nat" where
  "occurrences pat [] = (if pat = [] then 1 else 0)"
| "occurrences pat (c # cs) = (if prefix pat (c # cs) then 1 else 0) + occurrences pat cs"

text \<open>No suffix of \<open>t\<close> other than the empty one is a prefix of \<open>p\<close>.\<close>

fun no_border :: "string \<Rightarrow> string \<Rightarrow> bool" where
  "no_border p [] = True"
| "no_border p (x # xs) = (\<not> prefix (x # xs) p \<and> no_border p xs)"

text \<open>A value for the parameter \<open>str_num\<close> where the numeric value of strings plays no role.\<close>

definition no_number :: "string \<Rightarrow> jsnum" where
  "no_number s = NaN"

section \<open>Auxiliary facts\<close>

subsection \<open>Replacing the first occurrence\<close>

lemma injection_no_dollar: "CHR ''$'' \<notin> set injection"
  by (simp add: injection_def script_block_def)

lemma occurrences_pat_ge1: "1 \<le> occurrences pat (pre @ pat @ post)"
proof (induction pre)
  case Nil
  show ?case
  proof (cases "pat @ post")
    case Nil
    then show ?thesis by simp
  next
    case (Cons a list)
    have "prefix pat (pat @ post)" by simp
    with Cons show ?thesis by simp
  qed
next
  case (Cons c pre)
  then show ?case by simp
qed

lemma occurrences_zero_iff:
  "occurrences pat s = 0 \<longleftrightarrow> \<not> (\<exists>pre post. s = pre @ pat @ post)"
proof
  assume z: "occurrences pat s = 0"
  show "\<not> (\<exists>pre post. s = pre @ pat @ post)"
  proof
    assume "\<exists>pre post. s = pre @ pat @ post"
    then obtain pre post where "s = pre @ pat @ post" by blast
    with occurrences_pat_ge1 [of pat pre post] z show False by simp
  qed
next
  assume n: "\<not> (\<exists>pre post. s = pre @ pat @ post)"
  then show "occurrences pat s = 0"
  proof (induction s)
    case Nil
    then show ?case by auto
  next
    case (Cons c cs)
    have np: "\<not> prefix pat (c # cs)"
    proof
      assume "prefix pat (c # cs)"
      then obtain zs where "c # cs = pat @ zs" by (auto simp: prefix_def)
      then have "c # cs = [] @ pat @ zs" by simp
      with Cons.prems show False by blast
    qed
    have "\<not> (\<exists>pre post. cs = pre @ pat @ post)"
    proof
      assume "\<exists>pre post. cs = pre @ pat @ post"
      then obtain pre post where "cs = pre @ pat @ post" by blast
      then have "c # cs = (c # pre) @ pat @ post" by simp
      with Cons.prems show False by blast
    qed
    with Cons.IH np show ?case by simp
  qed
qed

lemma String_replace_absent:
  "occurrences pat s = 0 \<Longrightarrow> String_replace s pat rep = s"
  by (induction s) (auto split: if_splits)

lemma String_replace_once:
  "occurrences pat (pre @ pat @ post) = 1 \<Longrightarrow>
   String_replace (pre @ pat @ post) pat rep = pre @ rep @ post"
proof (induction pre)
  case Nil
  show ?case by (cases "pat @ post") (auto simp: append_eq_Cons_conv)
next
  case (Cons c pre)
  have ge: "1 \<le> occurrences pat (pre @ pat @ post)" by (rule occurrences_pat_ge1)
  from Cons.prems ge have np: "\<not> prefix pat (c # pre @ pat @ post)"
    by (auto split: if_splits)
  with Cons.prems have "occurrences pat (pre @ pat @ post) = 1" by simp
  with Cons.IH np show ?case by simp
qed


subsection \<open>Clamping\<close>

lemma clamp_spec: "x \<noteq> NaN \<Longrightarrow> Math_min (Math_max x (Fin 300)) (Fin 800) = clamp x (Fin 300) (Fin 800)"
  by (cases x) (auto simp: Math_min_def Math_max_def clamp_def)

lemma num_add_40_NaN: "num_add h (Fin 40) = NaN \<longleftrightarrow> h = NaN"
  by (cases h) auto

subsection \<open>Heights on which the addition raises\<close>

lemma handleMessage_bigint_height:
  "handleMessage str_num v (JObj [(''type'', JStr ''resize''), (''height'', JBigInt 5)]) = v"
  by (simp add: handleMessage_def)

lemma handleMessage_own_toString:
  "handleMessage str_num v
     (JObj [(''type'', JStr ''resize''), (''height'', JObj [(''toString'', JNum (Fin 1))])]) = v"
  by (simp add: handleMessage_def)

subsection \<open>Counting occurrences after an insertion\<close>

lemma prefix_of_longer:
  assumes "prefix p (t @ r)" and "length t \<le> length p"
  shows "prefix t p"
proof -
  from assms(1) have "prefix p t \<or> (\<exists>us. p = t @ us \<and> prefix us r)"
    by (simp only: prefix_append)
  then show ?thesis
  proof
    assume a: "prefix p t"
    then obtain zs where z: "t = p @ zs" by (auto simp: prefix_def)
    with assms(2) have "zs = []" by simp
    with z show ?thesis by simp
  next
    assume "\<exists>us. p = t @ us \<and> prefix us r"
    then obtain us where "p = t @ us" by blast
    then show ?thesis by simp
  qed
qed

lemma prefix_shorter:
  assumes "prefix us (p @ r)" and "length us \<le> length p"
  shows "prefix us p"
proof -
  from assms(1) have "prefix us p \<or> (\<exists>vs. us = p @ vs \<and> prefix vs r)"
    by (simp only: prefix_append)
  then show ?thesis
  proof
    assume "\<exists>vs. us = p @ vs \<and> prefix vs r"
    then obtain vs where "us = p @ vs" by blast
    with assms(2) show ?thesis by simp
  qed
qed

lemma no_border_suffix:
  "no_border p (a @ us) \<Longrightarrow> us \<noteq> [] \<Longrightarrow> \<not> prefix us p"
proof (induction a)
  case Nil
  then show ?case by (cases us) simp_all
next
  case (Cons x a)
  then show ?case by simp
qed

lemma occurrences_skip:
  "no_border p t \<Longrightarrow> length t < length p \<Longrightarrow> occurrences p (t @ r) = occurrences p r"
proof (induction t)
  case Nil
  then show ?case by simp
next
  case (Cons x t)
  have n: "\<not> prefix p (x # t @ r)"
  proof
    assume "prefix p (x # t @ r)"
    then have "prefix p ((x # t) @ r)" by simp
    moreover from Cons.prems(2) have "length (x # t) \<le> length p" by simp
    ultimately have "prefix (x # t) p" by (rule prefix_of_longer)
    with Cons.prems(1) show False by simp
  qed
  from Cons.prems have "no_border p t" and "length t < length p" by simp_all
  then have "occurrences p (t @ r) = occurrences p r" by (rule Cons.IH)
  with n show ?case by simp
qed

lemma occurrences_insert:
  assumes nb: "no_border p (tl p)" and ne: "p \<noteq> []"
  shows "occurrences p (pre @ r) = 0 \<Longrightarrow> occurrences p (pre @ p @ r) = 1"
proof (induction pre)
  case Nil
  from ne obtain x p' where p: "p = x # p'" by (cases p) auto
  from nb p have "no_border p p'" by simp
  moreover from p have "length p' < length p" by simp
  ultimately have s: "occurrences p (p' @ r) = occurrences p r" by (rule occurrences_skip)
  from Nil have z: "occurrences p r = 0" by simp
  have "prefix p (p @ r)" by simp
  then have "occurrences p (x # p' @ r) = 1 + occurrences p (p' @ r)"
    using p by (simp del: same_prefix_nil)
  with s z p show ?case by simp
next
  case (Cons x pre)
  from Cons.prems have np: "\<not> prefix p (x # pre @ r)" and z: "occurrences p (pre @ r) = 0"
    by (auto split: if_splits)
  have n: "\<not> prefix p (x # pre @ p @ r)"
  proof
    assume "prefix p (x # pre @ p @ r)"
    then have "prefix p ((x # pre) @ p @ r)" by simp
    then have "prefix p (x # pre) \<or> (\<exists>us. p = (x # pre) @ us \<and> prefix us (p @ r))"
      by (simp only: prefix_append)
    then show False
    proof
      assume "prefix p (x # pre)"
      then have "prefix p ((x # pre) @ r)" by (rule prefix_prefix)
      with np show False by simp
    next
      assume "\<exists>us. p = (x # pre) @ us \<and> prefix us (p @ r)"
      then obtain us where p: "p = (x # pre) @ us" and u: "prefix us (p @ r)" by blast
      show False
      proof (cases "us = []")
        case True
        with p have "prefix p (x # pre @ r)" by simp
        with np show False by simp
      next
        case False
        from p have "length us \<le> length p" by simp
        with u have b: "prefix us p" by (rule prefix_shorter)
        from p have "tl p = pre @ us" by simp
        with nb have "no_border p (pre @ us)" by simp
        then have "\<not> prefix us p" using False by (rule no_border_suffix)
        with b show False by simp
      qed
    qed
  qed
  from z have "occurrences p (pre @ p @ r) = 1" by (rule Cons.IH)
  with n show ?case by simp
qed

subsection \<open>The injected text\<close>

lemma script_block_nonempty: "script_block \<noteq> []"
  by (simp add: script_block_def)

lemma script_block_no_border: "no_border script_block (tl script_block)"
  by code_simp



lemma enhancedHtml_Some: "html \<noteq> [] \<Longrightarrow> enhancedHtml (Some html) = Some (String_replace html ''</body>'' injection)"
  by (simp add: enhancedHtml_def)

text \<open>
  An absent or empty \<^verbatim>\<open>htmlContent\<close> is falsy: the component does not take it as an
  inline source and resolves no \<^verbatim>\<open>srcdoc\<close> for it.
\<close>

lemma enhancedHtml_falsy: "enhancedHtml None = None \<and> enhancedHtml (Some []) = None"
  by (simp add: enhancedHtml_def)

subsection \<open>What a refresh assigns\<close>

lemma handleRefresh_inline:
  "iframeRef v = Some el \<Longrightarrow> htmlContent v = Some h \<Longrightarrow> h \<noteq> [] \<Longrightarrow>
   handleRefresh v = v\<lparr>iframeRef := Some (el\<lparr>srcdoc := Some h\<rparr>)\<rparr>"
  by (simp add: handleRefresh_def)

lemma handleRefresh_url:
  "iframeRef v = Some el \<Longrightarrow> truthy_str (htmlContent v) = None \<Longrightarrow> url v = Some u \<Longrightarrow> u \<noteq> [] \<Longrightarrow>
   handleRefresh v = v\<lparr>iframeRef := Some (el\<lparr>src := Some u\<rparr>)\<rparr>"
  by (simp add: handleRefresh_def)

lemma handleRefresh_unmounted: "iframeRef v = None \<Longrightarrow> handleRefresh v = v"
  by (simp add: handleRefresh_def)

section \<open>The sizing channel\<close>

text \<open>
  C1. Every accepted size report, that is a payload whose \<^verbatim>\<open>type\<close> is \<^verbatim>\<open>"resize"\<close>
  and whose \<^verbatim>\<open>height\<close> is a number \<open>h\<close> that passes the handler's test, sets the
  viewer's height to \<open>clamp(h + 40, 300, 800)\<close> and changes nothing else; for a finite
  \<open>h\<close> that is \<open>max 300 (min 800 (h + 40))\<close>. A report of 1000 gives 800 and a report
  of 100 gives 300: heights beyond the bounds are clamped, not rejected.
\<close>

theorem handleMessage_clamps:
  assumes "map_of kvs ''type'' = Some (JStr ''resize'')"
    and "map_of kvs ''height'' = Some (JNum h)"
    and "h \<noteq> NaN" and "h \<noteq> Fin 0"
  shows "handleMessage str_num v (JObj kvs) =
           v\<lparr>iframeHeight := clamp (num_add h (Fin 40)) (Fin 300) (Fin 800)\<rparr> \<and>
         (\<forall>n. h = Fin n \<longrightarrow>
            iframeHeight (handleMessage str_num v (JObj kvs)) = Fin (max 300 (min 800 (n + 40)))) \<and>
         iframeHeight (handleMessage str_num v
            (JObj [(''type'', JStr ''resize''), (''height'', JNum (Fin 1000))])) = Fin 800 \<and>
         iframeHeight (handleMessage str_num v
            (JObj [(''type'', JStr ''resize''), (''height'', JNum (Fin 100))])) = Fin 300"
proof -
  have acc: "handleMessage str_num v (JObj kvs) =
      v\<lparr>iframeHeight := Math_min (Math_max (num_add h (Fin 40)) (Fin 300)) (Fin 800)\<rparr>"
    using assms by (simp add: handleMessage_def)
  have nn: "num_add h (Fin 40) \<noteq> NaN" using assms(3) by (simp add: num_add_40_NaN)
  have one: "handleMessage str_num v (JObj kvs) =
      v\<lparr>iframeHeight := clamp (num_add h (Fin 40)) (Fin 300) (Fin 800)\<rparr>"
    using acc clamp_spec [OF nn] by simp
  have two: "\<forall>n. h = Fin n \<longrightarrow>
      iframeHeight (handleMessage str_num v (JObj kvs)) = Fin (max 300 (min 800 (n + 40)))"
    using one by (auto simp: clamp_def)
  have three: "iframeHeight (handleMessage str_num v
      (JObj [(''type'', JStr ''resize''), (''height'', JNum (Fin 1000))])) = Fin 800"
    by (simp add: handleMessage_def Math_min_def Math_max_def)
  have four: "iframeHeight (handleMessage str_num v
      (JObj [(''type'', JStr ''resize''), (''height'', JNum (Fin 100))])) = Fin 300"
    by (simp add: handleMessage_def Math_min_def Math_max_def)
  from one two three four show ?thesis by blast
qed

theorem handleMessage_clamps_witness:
  "map_of [(''type'', JStr ''resize''), (''height'', JNum (Fin 500))] ''type'' = Some (JStr ''resize'') \<and>
   map_of [(''type'', JStr ''resize''), (''height'', JNum (Fin 500))] ''height'' = Some (JNum (Fin 500)) \<and>
   Fin 500 \<noteq> NaN \<and> Fin 500 \<noteq> Fin 0 \<and>
   iframeHeight (handleMessage no_number (InteractiveOutput (Some ''https://example.org/a.html'') None)
      (JObj [(''type'', JStr ''resize''), (''height'', JNum (Fin 500))])) = Fin 540"
  using handleMessage_clamps [of "[(''type'', JStr ''resize''), (''height'', JNum (Fin 500))]" "Fin 500"
      no_number "InteractiveOutput (Some ''https://example.org/a.html'') None"]
  by (simp add: clamp_def)

text \<open>
  C2, as the specification states it, fails: a payload that is not of the shape
  \<^verbatim>\<open>{type: "resize", height: number}\<close> can change the height. The handler tests the
  height for truthiness only, so \<^verbatim>\<open>{type: "resize", height: true}\<close> is accepted:
  \<^verbatim>\<open>true + 40\<close> is 41, and the height goes from 450 to 300.
\<close>

theorem handleMessage_boolean_height_counterexample:
  "\<not> size_report_shape (JObj [(''type'', JStr ''resize''), (''height'', JBool True)]) \<and>
   iframeHeight (InteractiveOutput (Some ''https://example.org/a.html'') None) = Fin 450 \<and>
   iframeHeight (handleMessage no_number (InteractiveOutput (Some ''https://example.org/a.html'') None)
      (JObj [(''type'', JStr ''resize''), (''height'', JBool True)])) = Fin 300"
  by (simp add: handleMessage_def InteractiveOutput_def Math_min_def Math_max_def)

text \<open>
  C2, amended. The handler ignores every payload that is not an object, every object
  whose \<^verbatim>\<open>type\<close> is not the string \<^verbatim>\<open>"resize"\<close>, and every object whose
  \<^verbatim>\<open>height\<close> is missing or falsy (\<^verbatim>\<open>undefined\<close>, \<^verbatim>\<open>null\<close>, \<^verbatim>\<open>false\<close>,
  \<open>0\<close>, \<open>NaN\<close>, the empty string): the viewer after handling equals the viewer before.
\<close>

theorem handleMessage_ignores:
  assumes "\<forall>kvs. data = JObj kvs \<longrightarrow>
             map_of kvs ''type'' \<noteq> Some (JStr ''resize'') \<or>
             map_of kvs ''height'' \<in> {None, Some JUndefined, Some JNull, Some (JBool False),
                Some (JNum (Fin 0)), Some (JNum NaN), Some (JStr [])}"
  shows "handleMessage str_num v data = v"
proof (cases data)
  case (JObj kvs)
  with assms have d: "map_of kvs ''type'' \<noteq> Some (JStr ''resize'') \<or>
      map_of kvs ''height'' \<in> {None, Some JUndefined, Some JNull, Some (JBool False),
         Some (JNum (Fin 0)), Some (JNum NaN), Some (JStr [])}" by simp
  then show ?thesis
  proof
    assume t: "map_of kvs ''type'' \<noteq> Some (JStr ''resize'')"
    have "\<not> strict_eq_str (opt_chain data ''type'') ''resize''"
    proof (cases "map_of kvs ''type''")
      case None
      with JObj show ?thesis by simp
    next
      case (Some x)
      with t JObj show ?thesis by (cases x) auto
    qed
    then show ?thesis by (simp add: handleMessage_def)
  next
    assume "map_of kvs ''height'' \<in> {None, Some JUndefined, Some JNull, Some (JBool False),
         Some (JNum (Fin 0)), Some (JNum NaN), Some (JStr [])}"
    then have "\<not> truthy (opt_chain data ''height'')"
      using JObj by auto
    then show ?thesis by (simp add: handleMessage_def)
  qed
qed (simp_all add: handleMessage_def)

theorem handleMessage_ignores_witness:
  "handleMessage no_number (InteractiveOutput (Some ''https://example.org/a.html'') None)
     (JObj [(''foo'', JStr ''bar'')]) = InteractiveOutput (Some ''https://example.org/a.html'') None \<and>
   handleMessage no_number (InteractiveOutput (Some ''https://example.org/a.html'') None)
     (JObj [(''type'', JStr ''resize'')]) = InteractiveOutput (Some ''https://example.org/a.html'') None \<and>
   handleMessage no_number (InteractiveOutput (Some ''https://example.org/a.html'') None)
     (JObj [(''type'', JStr ''resize''), (''height'', JStr [])]) =
       InteractiveOutput (Some ''https://example.org/a.html'') None \<and>
   handleMessage no_number (InteractiveOutput (Some ''https://example.org/a.html'') None)
     (JStr ''resize'') = InteractiveOutput (Some ''https://example.org/a.html'') None"
proof -
  let ?v = "InteractiveOutput (Some ''https://example.org/a.html'') None"
  have a: "handleMessage no_number ?v (JObj [(''foo'', JStr ''bar'')]) = ?v"
    using handleMessage_ignores [of "JObj [(''foo'', JStr ''bar'')]" no_number ?v] by simp
  have b: "handleMessage no_number ?v (JObj [(''type'', JStr ''resize'')]) = ?v"
    using handleMessage_ignores [of "JObj [(''type'', JStr ''resize'')]" no_number ?v] by simp
  have c: "handleMessage no_number ?v (JObj [(''type'', JStr ''resize''), (''height'', JStr [])]) = ?v"
    using handleMessage_ignores [of "JObj [(''type'', JStr ''resize''), (''height'', JStr [])]" no_number ?v]
    by simp
  have d: "handleMessage no_number ?v (JStr ''resize'') = ?v"
    using handleMessage_ignores [of "JStr ''resize''" no_number ?v] by simp
  from a b c d show ?thesis by blast
qed

text \<open>
  C9. A payload of the right shape whose height is 0 is ignored: the viewer is left as
  it was, and the height does not become the lower bound 300 that clamping \<open>0 + 40\<close>
  would give.
\<close>

theorem handleMessage_zero_height_ignored:
  assumes "map_of kvs ''type'' = Some (JStr ''resize'')"
    and "map_of kvs ''height'' = Some (JNum (Fin 0))"
  shows "size_report_shape (JObj kvs) \<and> handleMessage str_num v (JObj kvs) = v"
  using assms by (simp add: handleMessage_def)

theorem handleMessage_zero_height_ignored_witness:
  "size_report_shape (JObj [(''type'', JStr ''resize''), (''height'', JNum (Fin 0))]) \<and>
   iframeHeight (handleMessage no_number (InteractiveOutput (Some ''https://example.org/a.html'') None)
     (JObj [(''type'', JStr ''resize''), (''height'', JNum (Fin 0))])) = Fin 450 \<and>
   clamp (num_add (Fin 0) (Fin 40)) (Fin 300) (Fin 800) = Fin 300"
  using handleMessage_zero_height_ignored [of "[(''type'', JStr ''resize''), (''height'', JNum (Fin 0))]"
      no_number "InteractiveOutput (Some ''https://example.org/a.html'') None"]
  by (simp add: InteractiveOutput_def clamp_def)

section \<open>The content source resolver\<close>

text \<open>
  C5. An inline-HTML source is a \<^verbatim>\<open>htmlContent\<close> that the component takes as one, that
  is a non-empty string. If it holds \<^verbatim>\<open></body>\<close> exactly once, the resolved document is
  the input with one script block inserted immediately before that \<^verbatim>\<open></body>\<close>: for the
  decomposition \<open>pre @ </body> @ post\<close> of the input, which exists, the output is
  \<open>pre @ script_block @ </body> @ post\<close>, and it holds the script block exactly once
  when the input did not hold it already. If the input does not hold \<^verbatim>\<open></body>\<close>, the
  resolved document is the input. In both cases a document is produced: the resolver
  is total.
\<close>

theorem enhancedHtml_injects_once:
  assumes "html \<noteq> []"
  shows "(occurrences ''</body>'' html = 1 \<longrightarrow>
           (\<exists>pre post. html = pre @ ''</body>'' @ post) \<and>
           (\<forall>pre post. html = pre @ ''</body>'' @ post \<longrightarrow>
              enhancedHtml (Some html) = Some (pre @ script_block @ ''</body>'' @ post)) \<and>
           (occurrences script_block html = 0 \<longrightarrow>
              (\<exists>out. enhancedHtml (Some html) = Some out \<and> occurrences script_block out = 1))) \<and>
         (occurrences ''</body>'' html = 0 \<longrightarrow> enhancedHtml (Some html) = Some html) \<and>
         enhancedHtml (Some html) \<noteq> None"
proof -
  have e: "enhancedHtml (Some html) = Some (String_replace html ''</body>'' injection)"
    using assms by (rule enhancedHtml_Some)
  have placed: "enhancedHtml (Some html) = Some (pre @ script_block @ ''</body>'' @ post)"
    if one: "occurrences ''</body>'' html = 1" and d: "html = pre @ ''</body>'' @ post"
    for pre post
  proof -
    from one d have "occurrences ''</body>'' (pre @ ''</body>'' @ post) = 1" by simp
    then have "String_replace (pre @ ''</body>'' @ post) ''</body>'' injection = pre @ injection @ post"
      by (rule String_replace_once)
    with e d show ?thesis by (simp add: injection_def)
  qed
  have split: "\<exists>pre post. html = pre @ ''</body>'' @ post"
    if one: "occurrences ''</body>'' html = 1"
  proof -
    from one have "occurrences ''</body>'' html \<noteq> 0" by simp
    then show ?thesis by (simp only: occurrences_zero_iff not_not)
  qed
  have counted: "\<exists>out. enhancedHtml (Some html) = Some out \<and> occurrences script_block out = 1"
    if one: "occurrences ''</body>'' html = 1" and none: "occurrences script_block html = 0"
  proof -
    from split [OF one] obtain pre post where d: "html = pre @ ''</body>'' @ post" by blast
    from none d have "occurrences script_block (pre @ (''</body>'' @ post)) = 0" by simp
    then have "occurrences script_block (pre @ script_block @ (''</body>'' @ post)) = 1"
      by (rule occurrences_insert [OF script_block_no_border script_block_nonempty])
    with placed [OF one d] show ?thesis by simp
  qed
  have absent: "enhancedHtml (Some html) = Some html" if "occurrences ''</body>'' html = 0"
    using e String_replace_absent [OF that] by simp
  have some: "enhancedHtml (Some html) \<noteq> None"
    using e by simp
  from placed split counted absent some show ?thesis by blast
qed

theorem enhancedHtml_injects_once_witness:
  "''<html><body><div>hi</div></body></html>'' \<noteq> [] \<and>
   occurrences ''</body>'' ''<html><body><div>hi</div></body></html>'' = 1 \<and>
   enhancedHtml (Some ''<html><body><div>hi</div></body></html>'') =
     Some (''<html><body><div>hi</div>'' @ script_block @ ''</body>'' @ ''</html>'') \<and>
   occurrences script_block ''<html><body><div>hi</div></body></html>'' = 0 \<and>
   occurrences script_block (''<html><body><div>hi</div>'' @ script_block @ ''</body>'' @ ''</html>'') = 1 \<and>
   ''<div>hi</div>'' \<noteq> [] \<and>
   occurrences ''</body>'' ''<div>hi</div>'' = 0 \<and>
   enhancedHtml (Some ''<div>hi</div>'') = Some ''<div>hi</div>''"
proof -
  have n1: "''<html><body><div>hi</div></body></html>'' \<noteq> []" by simp
  have o1: "occurrences ''</body>'' ''<html><body><div>hi</div></body></html>'' = 1" by simp
  have d: "''<html><body><div>hi</div></body></html>'' =
      ''<html><body><div>hi</div>'' @ ''</body>'' @ ''</html>''"
    by simp
  have a: "enhancedHtml (Some ''<html><body><div>hi</div></body></html>'') =
     Some (''<html><body><div>hi</div>'' @ script_block @ ''</body>'' @ ''</html>'')"
    by (rule enhancedHtml_injects_once [OF n1, THEN conjunct1, rule_format, OF o1,
          THEN conjunct2, THEN conjunct1, rule_format, OF d])
  have s0: "occurrences script_block ''<html><body><div>hi</div></body></html>'' = 0"
    by code_simp
  have "\<exists>out. enhancedHtml (Some ''<html><body><div>hi</div></body></html>'') = Some out \<and>
      occurrences script_block out = 1"
    by (rule enhancedHtml_injects_once [OF n1, THEN conjunct1, rule_format, OF o1,
          THEN conjunct2, THEN conjunct2, rule_format, OF s0])
  with a have c: "occurrences script_block
      (''<html><body><div>hi</div>'' @ script_block @ ''</body>'' @ ''</html>'') = 1"
    by simp
  have n0: "''<div>hi</div>'' \<noteq> []" by simp
  have o0: "occurrences ''</body>'' ''<div>hi</div>'' = 0" by simp
  have b: "enhancedHtml (Some ''<div>hi</div>'') = Some ''<div>hi</div>''"
    by (rule enhancedHtml_injects_once [OF n0, THEN conjunct2, THEN conjunct1, rule_format, OF o0])
  from n1 o1 a s0 c n0 o0 b show ?thesis by blast
qed



section \<open>Refresh\<close>

text \<open>
  C3. The claim asks that a refresh of an inline-HTML viewer reloads the enhanced
  document. The code assigns the raw \<^verbatim>\<open>htmlContent\<close> to \<^verbatim>\<open>srcdoc\<close> instead of
  \<^verbatim>\<open>enhancedHtml\<close>, which the first render uses: for \<^verbatim>\<open><body></body>\<close> the viewer
  first loads the document with the script block and after a refresh the document
  without it, and the two differ.
\<close>

theorem handleRefresh_loads_raw_html:
  "loaded_document (InteractiveOutput None (Some ''<body></body>'')) =
     Some (SrcdocDocument (''<body>'' @ script_block @ ''</body>'')) \<and>
   loaded_document (handleRefresh (InteractiveOutput None (Some ''<body></body>''))) =
     Some (SrcdocDocument ''<body></body>'') \<and>
   ''<body>'' @ script_block @ ''</body>'' \<noteq> ''<body></body>''"
proof -
  have e: "enhancedHtml (Some ''<body></body>'') = Some (''<body>'' @ script_block @ ''</body>'')"
    by (simp add: enhancedHtml_def injection_def)
  have a: "loaded_document (InteractiveOutput None (Some ''<body></body>'')) =
     Some (SrcdocDocument (''<body>'' @ script_block @ ''</body>''))"
    by (simp add: loaded_document_def InteractiveOutput_def render_iframe_def iframe_document_def e)
  have b: "loaded_document (handleRefresh (InteractiveOutput None (Some ''<body></body>''))) =
     Some (SrcdocDocument ''<body></body>'')"
    by (simp add: loaded_document_def InteractiveOutput_def handleRefresh_def iframe_document_def)
  have c: "''<body>'' @ script_block @ ''</body>'' \<noteq> ''<body></body>''"
    using script_block_nonempty by simp
  from a b c show ?thesis by blast
qed

text \<open>
  C10. With a URL and a non-empty \<^verbatim>\<open>htmlContent\<close> both given, the first render loads the
  enhanced inline document and a refresh loads an inline document again, never the
  URL; but the document a refresh loads is the raw \<^verbatim>\<open>htmlContent\<close>, not the enhanced
  one that the claim names (the defect of C3).
\<close>

theorem handleRefresh_with_both_props:
  "loaded_document (InteractiveOutput (Some ''https://example.org/a.html'') (Some ''<body></body>'')) =
     Some (SrcdocDocument (''<body>'' @ script_block @ ''</body>'')) \<and>
   loaded_document (handleRefresh
       (InteractiveOutput (Some ''https://example.org/a.html'') (Some ''<body></body>''))) =
     Some (SrcdocDocument ''<body></body>'') \<and>
   ''<body></body>'' \<noteq> ''<body>'' @ script_block @ ''</body>''"
proof -
  have e: "enhancedHtml (Some ''<body></body>'') = Some (''<body>'' @ script_block @ ''</body>'')"
    by (simp add: enhancedHtml_def injection_def)
  have a: "loaded_document (InteractiveOutput (Some ''https://example.org/a.html'') (Some ''<body></body>'')) =
     Some (SrcdocDocument (''<body>'' @ script_block @ ''</body>''))"
    by (simp add: loaded_document_def InteractiveOutput_def render_iframe_def iframe_document_def e)
  have b: "loaded_document (handleRefresh
       (InteractiveOutput (Some ''https://example.org/a.html'') (Some ''<body></body>''))) =
     Some (SrcdocDocument ''<body></body>'')"
    by (simp add: loaded_document_def InteractiveOutput_def handleRefresh_def iframe_document_def)
  have c: "''<body></body>'' \<noteq> ''<body>'' @ script_block @ ''</body>''"
    using script_block_nonempty by simp
  from a b c show ?thesis by blast
qed

text \<open>
  C4, as the specification states it, fails: \<^verbatim>\<open>handleRefresh\<close> calls no state setter, so
  a viewer whose document has loaded still has \<open>isLoaded\<close> true after a refresh.
\<close>

theorem handleRefresh_keeps_loaded_counterexample:
  "isLoaded (onLoad (InteractiveOutput (Some ''https://example.org/a.html'') None)) = True \<and>
   isLoaded (handleRefresh (onLoad (InteractiveOutput (Some ''https://example.org/a.html'') None))) \<noteq> False"
  by (simp add: handleRefresh_def onLoad_def InteractiveOutput_def)

text \<open>
  C4, amended. For every viewer and every prior value of the loaded flag, a refresh
  leaves the flag as it was; the flag is set to true by each load-complete signal of
  the embedded context, also by the one that follows a refresh.
\<close>

theorem handleRefresh_loaded_unchanged:
  "isLoaded (handleRefresh v) = isLoaded v \<and>
   isLoaded (onLoad v) = True \<and>
   isLoaded (onLoad (handleRefresh v)) = True"
  by (simp add: handleRefresh_def onLoad_def split: option.splits)

section \<open>The viewer chrome\<close>

text \<open>
  C7. Toggling twice gives back the viewer, so \<open>isExpanded\<close> has its original value and
  the height the \<^verbatim>\<open>iframe\<close> is given is the original one; one toggle negates
  \<open>isExpanded\<close> and never changes \<open>iframeHeight\<close>. An expanded viewer is given the
  height \<^verbatim>\<open>calc(100vh - 80px)\<close>, derived from the viewport; a collapsed one is given
  \<open>iframeHeight\<close> pixels.
\<close>

theorem toggleExpanded_involution:
  "toggleExpanded (toggleExpanded v) = v \<and>
   isExpanded (toggleExpanded v) = (\<not> isExpanded v) \<and>
   iframeHeight (toggleExpanded v) = iframeHeight v \<and>
   iframe_style_height (toggleExpanded (toggleExpanded v)) = iframe_style_height v \<and>
   iframe_style_height (v\<lparr>isExpanded := True\<rparr>) = Expression ''calc(100vh - 80px)'' \<and>
   iframe_style_height (v\<lparr>isExpanded := False\<rparr>) = Px (iframeHeight v)"
  by (simp add: toggleExpanded_def iframe_style_height_def)

text \<open>
  C8. \<^verbatim>\<open>openInNewTab\<close> returns the viewer it was given: props, \<open>isExpanded\<close>,
  \<open>isLoaded\<close>, \<open>iframeHeight\<close> and the \<^verbatim>\<open>iframe\<close> are unchanged. For an inline-HTML
  source it stores a blob of type \<^verbatim>\<open>text/html\<close> holding the inline content and opens the
  blob's URL in a new tab; for a URL source it opens the URL in a new tab.
\<close>

theorem openInNewTab_frame:
  "fst (openInNewTab v w) = v \<and>
   (\<forall>h. htmlContent v = Some h \<and> h \<noteq> [] \<longrightarrow>
      snd (openInNewTab v w) =
        w\<lparr>object_urls := object_urls w @ [\<lparr>blobParts = [h], blobType = ''text/html''\<rparr>],
          opened := opened w @ [(ObjectURL (length (object_urls w)), ''_blank'')]\<rparr>) \<and>
   (\<forall>u. truthy_str (htmlContent v) = None \<and> url v = Some u \<and> u \<noteq> [] \<longrightarrow>
      snd (openInNewTab v w) = w\<lparr>opened := opened w @ [(Address u, ''_blank'')]\<rparr>)"
  by (auto simp: openInNewTab_def createObjectURL_def window_open_def split: option.splits)

theorem openInNewTab_frame_witness:
  "openInNewTab (InteractiveOutput None (Some ''<p>hi</p>'')) \<lparr>object_urls = [], opened = []\<rparr> =
     (InteractiveOutput None (Some ''<p>hi</p>''),
      \<lparr>object_urls = [\<lparr>blobParts = [''<p>hi</p>''], blobType = ''text/html''\<rparr>],
       opened = [(ObjectURL 0, ''_blank'')]\<rparr>) \<and>
   openInNewTab (InteractiveOutput (Some ''https://example.org/a.html'') None) \<lparr>object_urls = [], opened = []\<rparr> =
     (InteractiveOutput (Some ''https://example.org/a.html'') None,
      \<lparr>object_urls = [], opened = [(Address ''https://example.org/a.html'', ''_blank'')]\<rparr>)"
proof -
  let ?w = "\<lparr>object_urls = [], opened = []\<rparr>"
  let ?a = "InteractiveOutput None (Some ''<p>hi</p>'')"
  let ?b = "InteractiveOutput (Some ''https://example.org/a.html'') None"
  have ha: "htmlContent ?a = Some ''<p>hi</p>''" by (simp add: InteractiveOutput_def)
  have hb: "truthy_str (htmlContent ?b) = None" "url ?b = Some ''https://example.org/a.html''"
    by (simp_all add: InteractiveOutput_def)
  have a: "openInNewTab ?a ?w = (?a, \<lparr>object_urls = [\<lparr>blobParts = [''<p>hi</p>''], blobType = ''text/html''\<rparr>],
       opened = [(ObjectURL 0, ''_blank'')]\<rparr>)"
    using openInNewTab_frame [of ?a ?w] ha by (simp add: prod_eq_iff)
  have b: "openInNewTab ?b ?w = (?b, \<lparr>object_urls = [], opened = [(Address ''https://example.org/a.html'', ''_blank'')]\<rparr>)"
    using openInNewTab_frame [of ?b ?w] hb by (simp add: prod_eq_iff)
  from a b show ?thesis by blast
qed

end
